theory Spec2Isabelle
  imports Complex_Main "HOL-Library.Word"
begin

unbundle bit_operations_syntax

section \<open>The story data (types.ts)\<close>

text \<open>
  The interfaces \<open>Keyword\<close>, \<open>TeachingWord\<close> and \<open>StoryResponse\<close>. Both word
  interfaces have a field \<open>en\<close>; the record fields carry a prefix to keep them apart,
  and \<open>keywords\<close> (a reserved word here) is \<open>story_keywords\<close>.
  The optional \<open>type\<close> tag of a keyword is never read by the audio code and is left out.
\<close>

record Keyword =
  k_cn :: string
  k_en :: string

record TeachingWord =
  t_en :: string
  t_note :: string

record StoryResponse =
  title :: string
  english :: "string list"
  chinese :: "string list"
  story_keywords :: "Keyword list"
  teaching_words :: "TeachingWord list"
  parent_tips :: "string list"

section \<open>The speech service (geminiService.ts, generateSpeech)\<close>


text \<open>JavaScript truthiness of a string: only the empty string is falsy.\<close>

definition truthy :: "string \<Rightarrow> bool" where
  "truthy s = (s \<noteq> [])"


section \<open>The component state (StoryDisplay)\<close>

text \<open>
  Every call of \<open>generateSpeech\<close> made by the component is kept in \<open>speechCalls\<close>, in
  the order the calls were made: the text that was sent, and the state of the promise
  \<open>generateSpeech(text).then(...)\<close> built from it. A promise is identified by its position in
  that list. The list is the record of all outbound fetches; it is not cleared by anything.
\<close>

datatype promise_state = Pending | Fulfilled "string option"

record speech_call =
  sent_text :: string
  promise :: promise_state

text \<open>
  \<open>audioCache\<close> is the React state \<open>Record<string, string>\<close> with every update that
  \<open>setAudioCache\<close> was given applied (what a render reads is the value at the time of that
  render; see \<open>loadAudio\<close> below), \<open>speechPromiseMap\<close> the ref holding
  \<open>Record<string, Promise<string | null>>\<close> (promises by their position in
  \<open>speechCalls\<close>). Object keys are taken to be ordinary texts: keys that a JavaScript object
  inherits from its prototype (such as \<open>constructor\<close>) are outside this model.
  \<open>audioContextRef\<close> is the ref to the lazily created context (\<open>None\<close> is null), and
  \<open>consoleErrors\<close> collects what \<open>console.error\<close> was called with in \<open>handleSpeak\<close>.
\<close>

datatype js_error = RangeError | NotSupportedError | InvalidCharacterError | OtherError string

text \<open>
  The \<open>AudioContext\<close> belongs to the browser, not to the program. What the program needs
  of it is taken as given: for which arguments \<open>createBuffer(numberOfChannels, length,
  sampleRate)\<close> throws, and whether creating, connecting and starting a buffer source
  throws. A buffer that is created has the requested number of channels, each of the
  requested length, filled with zeros. Whether the context is suspended can change at any
  time and is not part of this record.
\<close>

record audio_ctx =
  createBuffer_throws :: "nat \<Rightarrow> nat \<Rightarrow> nat \<Rightarrow> js_error option"
  start_throws :: "js_error option"

record component =
  localStory :: StoryResponse
  isEditing :: bool
  speakingIndex :: "nat option"
  loadingAudioIndex :: "nat option"
  audioCache :: "string \<rightharpoonup> string"
  audioContextRef :: "audio_ctx option"
  speechPromiseMap :: "string \<rightharpoonup> nat"
  speechCalls :: "speech_call list"
  consoleErrors :: "js_error list"

text \<open>The component as \<open>useState\<close> and \<open>useRef\<close> initialise it for a story.\<close>

definition mount :: "StoryResponse \<Rightarrow> component" where
  "mount story =
     \<lparr>localStory = story, isEditing = False, speakingIndex = None, loadingAudioIndex = None,
      audioCache = Map.empty, audioContextRef = None, speechPromiseMap = Map.empty,
      speechCalls = [], consoleErrors = []\<rparr>"

subsection \<open>The story-reset effect\<close>

text \<open>
  The effect with dependency \<open>[story]\<close>: one synchronous callback that sets the local
  story, leaves edit mode, replaces the cache by \<open>{}\<close> and the promise map by \<open>{}\<close>.
  Promises that are still pending are not touched.
\<close>

definition storyReset :: "StoryResponse \<Rightarrow> component \<Rightarrow> component" where
  "storyReset story s =
     s\<lparr>localStory := story, isEditing := False, audioCache := Map.empty,
       speechPromiseMap := Map.empty\<rparr>"

subsection \<open>loadAudio\<close>

text \<open>
  \<open>loadAudio\<close> is an async function: what its caller awaits is either a value that is
  already there (a cache hit) or the outcome of a promise of \<open>speechCalls\<close>.
\<close>

datatype load_result = Immediate string | Follow nat

text \<open>\<open>if (audioCache[text]) return audioCache[text]\<close>: a hit needs a truthy entry.\<close>

definition cacheHit :: "(string \<rightharpoonup> string) \<Rightarrow> string \<Rightarrow> string option" where
  "cacheHit cache text' =
     (case cache text' of None \<Rightarrow> None | Some v \<Rightarrow> if truthy v then Some v else None)"

text \<open>
  The function closes over the \<open>audioCache\<close> of the render that created it, so the cache
  it reads is a parameter of its own (\<open>cache\<close>); the promise map is a ref and is read and
  written in the component. Step 3 calls \<open>generateSpeech\<close> (a new entry of \<open>speechCalls\<close>,
  pending) and registers the promise under the text before returning it.
\<close>

definition loadAudio :: "(string \<rightharpoonup> string) \<Rightarrow> string \<Rightarrow> component \<Rightarrow> load_result \<times> component" where
  "loadAudio cache text' s =
     (case cacheHit cache text' of
        Some v \<Rightarrow> (Immediate v, s)
      | None \<Rightarrow>
         (case speechPromiseMap s text' of
            Some p \<Rightarrow> (Follow p, s)
          | None \<Rightarrow>
             (let p = length (speechCalls s) in
              (Follow p,
               s\<lparr>speechCalls := speechCalls s @ [\<lparr>sent_text = text', promise = Pending\<rparr>],
                 speechPromiseMap := (speechPromiseMap s)(text' \<mapsto> p)\<rparr>))))"

text \<open>
  The promise \<open>p\<close> is fulfilled with \<open>base64\<close>: the \<open>then\<close> callback stores a truthy
  value in the cache under the text of the call (\<open>setAudioCache(prev => ({...prev, [text]:
  base64}))\<close>) and passes the value on. The promise map is left as it is. Nothing happens
  for a promise that does not exist or is already fulfilled.
\<close>

definition speechFulfilled :: "nat \<Rightarrow> string option \<Rightarrow> component \<Rightarrow> component" where
  "speechFulfilled p base64 s =
     (if p < length (speechCalls s) \<and> promise (speechCalls s ! p) = Pending then
        (let call = speechCalls s ! p;
             s' = s\<lparr>speechCalls := (speechCalls s)[p := call\<lparr>promise := Fulfilled base64\<rparr>]\<rparr>
         in case base64 of
              None \<Rightarrow> s'
            | Some b \<Rightarrow>
                if truthy b then s'\<lparr>audioCache := (audioCache s')(sent_text call \<mapsto> b)\<rparr> else s')
      else s)"

text \<open>
  What a caller that awaits a \<open>load_result\<close> has received so far: \<open>None\<close> while the
  promise is pending, otherwise the value (\<open>Some None\<close> is null).
\<close>

definition awaited :: "load_result \<Rightarrow> component \<Rightarrow> string option option" where
  "awaited r s =
     (case r of
        Immediate v \<Rightarrow> Some (Some v)
      | Follow p \<Rightarrow>
          (if p < length (speechCalls s) then
             (case promise (speechCalls s ! p) of Pending \<Rightarrow> None | Fulfilled v \<Rightarrow> Some v)
           else None))"

text \<open>The outbound fetches: all texts sent so far, and those whose promise is pending.\<close>

definition fetched :: "component \<Rightarrow> string list" where
  "fetched s = map sent_text (speechCalls s)"


subsection \<open>What can happen to the component\<close>

text \<open>
  The program is single-threaded: between two suspension points a callback runs to its end.
  The callbacks that touch the two maps are a call of \<open>loadAudio\<close> (with the cache of the
  render whose closure makes the call), the \<open>then\<close> callback of a fulfilled speech promise,
  and the story-reset effect.
\<close>

datatype event =
    Call "string \<rightharpoonup> string" string
  | Fulfil nat "string option"
  | StoryChange StoryResponse

fun step :: "event \<Rightarrow> component \<Rightarrow> component" where
  "step (Call cache text') s = snd (loadAudio cache text' s)"
| "step (Fulfil p base64) s = speechFulfilled p base64 s"
| "step (StoryChange story) s = storyReset story s"

definition run :: "event list \<Rightarrow> component \<Rightarrow> component" where
  "run evs s = fold step evs s"




text \<open>
  The calls made since the component had \<open>n\<close> calls on record, and those of them that are
  still in flight.
\<close>

definition fetchedSince :: "nat \<Rightarrow> component \<Rightarrow> string list" where
  "fetchedSince n s = map sent_text (drop n (speechCalls s))"


subsection \<open>The prefetch effect\<close>

definition textsToPreload :: "StoryResponse \<Rightarrow> string list" where
  "textsToPreload story =
     english story @ map k_en (story_keywords story) @ map t_en (teaching_words story)"

text \<open>
  The \<open>for\<close> loop of \<open>prefetchAll\<close>: \<open>if (!text) continue; loadAudio(text);\<close>. The promise
  that \<open>loadAudio\<close> returns is dropped and not awaited, so the loop body is the synchronous
  part of the call and nothing else runs between two iterations.
\<close>

fun prefetchLoop :: "(string \<rightharpoonup> string) \<Rightarrow> string list \<Rightarrow> component \<Rightarrow> component" where
  "prefetchLoop cache [] s = s"
| "prefetchLoop cache (text' # texts) s =
     (if \<not> truthy text' then prefetchLoop cache texts s
      else prefetchLoop cache texts (snd (loadAudio cache text' s)))"

definition prefetchAll :: "(string \<rightharpoonup> string) \<Rightarrow> component \<Rightarrow> component" where
  "prefetchAll cache s = prefetchLoop cache (textsToPreload (localStory s)) s"

text \<open>The effect with dependencies \<open>[localStory, isEditing]\<close>.\<close>

definition prefetchEffect :: "(string \<rightharpoonup> string) \<Rightarrow> component \<Rightarrow> component" where
  "prefetchEffect cache s = (if \<not> isEditing s then prefetchAll cache s else s)"

text \<open>
  A change of the \<open>story\<close> prop: the reset effect runs, the component renders again with
  the state the effect has set, and the prefetch effect of that render runs with its cache.
\<close>

definition storyChanged :: "StoryResponse \<Rightarrow> component \<Rightarrow> component" where
  "storyChanged story s =
     (let s1 = storyReset story s in prefetchEffect (audioCache s1) s1)"

text \<open>The first occurrences of a list, in order.\<close>

definition firstOccurrences :: "'a list \<Rightarrow> 'a list" where
  "firstOccurrences xs = rev (remdups (rev xs))"

section \<open>Decoding and playing (audioUtils.ts)\<close>

subsection \<open>Audio buffers\<close>

text \<open>A \<open>Float32Array\<close> element: a number or NaN.\<close>

datatype f32 = F32 real | NaN

record AudioBuffer =
  channelData :: "f32 list list"
  sampleRate :: nat

definition createBuffer :: "audio_ctx \<Rightarrow> nat \<Rightarrow> nat \<Rightarrow> nat \<Rightarrow> js_error + AudioBuffer" where
  "createBuffer ctx numberOfChannels len rate =
     (case createBuffer_throws ctx numberOfChannels len rate of
        Some e \<Rightarrow> Inl e
      | None \<Rightarrow>
          Inr \<lparr>channelData = replicate numberOfChannels (replicate len (F32 0)),
               sampleRate = rate\<rparr>)"

text \<open>
  A context as the Web Audio API describes \<open>createBuffer\<close>: a \<open>NotSupportedError\<close> when
  the number of channels, the length or the sample rate is zero. (Real contexts also refuse
  values above their limits.)
\<close>

definition standardContext :: audio_ctx where
  "standardContext =
     \<lparr>createBuffer_throws =
        (\<lambda>numberOfChannels len rate.
           if numberOfChannels = 0 \<or> len = 0 \<or> rate = 0 then Some NotSupportedError else None),
      start_throws = None\<rparr>"

subsection \<open>decodeAudioData\<close>

text \<open>
  \<open>new Int16Array(data.buffer)\<close>: a view of the bytes as 16-bit integers, two bytes each,
  low byte first (the byte order of the platforms browsers run on). The constructor throws
  a \<open>RangeError\<close> when the byte length is not a multiple of 2.
\<close>

fun int16_pairs :: "8 word list \<Rightarrow> 16 word list" where
  "int16_pairs (lo # hi # rest) = (ucast lo OR push_bit 8 (ucast hi)) # int16_pairs rest"
| "int16_pairs [lo] = []"
| "int16_pairs [] = []"

definition Int16Array_of :: "8 word list \<Rightarrow> js_error + 16 word list" where
  "Int16Array_of data = (if odd (length data) then Inl RangeError else Inr (int16_pairs data))"

text \<open>
  Reading a typed array out of range gives undefined (\<open>None\<close>), and \<open>undefined / 32768.0\<close>
  is NaN; writing a typed array out of range does nothing. A 16-bit integer divided by
  32768 is a 32-bit float as it stands, so storing it rounds nothing.
\<close>

definition element :: "'a list \<Rightarrow> nat \<Rightarrow> 'a option" where
  "element xs k = (if k < length xs then Some (xs ! k) else None)"

definition toFloat :: "16 word option \<Rightarrow> f32" where
  "toFloat x = (case x of None \<Rightarrow> NaN | Some w \<Rightarrow> F32 (real_of_int (sint w) / 32768))"

definition store :: "'a list \<Rightarrow> nat \<Rightarrow> 'a \<Rightarrow> 'a list" where
  "store xs i v = (if i < length xs then xs[i := v] else xs)"

text \<open>
  \<open>frameCount = dataInt16.length / numChannels\<close> is a JavaScript number and need not be
  whole. It is used twice. As the length argument of \<open>createBuffer\<close> it is converted to an
  unsigned 32-bit integer: the fraction is cut off, and infinity and NaN (a division by
  zero) become 0. As the bound of \<open>for (let i = 0; i < frameCount; i++)\<close> it admits every
  \<open>i\<close> with \<open>i * numChannels < dataInt16.length\<close>; that loop is only reached with
  \<open>numChannels > 0\<close>. The sample rate and the number of channels are natural numbers
  here, as they are at the one call site (24000 and 1).
\<close>

definition frameLength :: "nat \<Rightarrow> nat \<Rightarrow> nat" where
  "frameLength samples numChannels =
     (if numChannels = 0 then 0 else (samples div numChannels) mod 2 ^ 32)"

definition frameIterations :: "nat \<Rightarrow> nat \<Rightarrow> nat" where
  "frameIterations samples numChannels = (samples + numChannels - 1) div numChannels"

definition fillChannel :: "16 word list \<Rightarrow> nat \<Rightarrow> nat \<Rightarrow> f32 list \<Rightarrow> f32 list" where
  "fillChannel dataInt16 numChannels channel channelData' =
     fold (\<lambda>i cd. store cd i (toFloat (element dataInt16 (i * numChannels + channel))))
       [0..<frameIterations (length dataInt16) numChannels] channelData'"

text \<open>
  \<open>getChannelData(channel)\<close> hands out the channel's own array, so the writes of the inner
  loop are writes to the buffer.
\<close>

definition decodeAudioData :: "8 word list \<Rightarrow> audio_ctx \<Rightarrow> nat \<Rightarrow> nat \<Rightarrow> js_error + AudioBuffer" where
  "decodeAudioData data ctx sampleRate' numChannels =
     (case Int16Array_of data of
        Inl e \<Rightarrow> Inl e
      | Inr dataInt16 \<Rightarrow>
          (case createBuffer ctx numChannels (frameLength (length dataInt16) numChannels) sampleRate' of
             Inl e \<Rightarrow> Inl e
           | Inr buffer \<Rightarrow>
               Inr (fold (\<lambda>channel buf.
                            buf\<lparr>channelData :=
                                  store (channelData buf) channel
                                    (fillChannel dataInt16 numChannels channel
                                       (channelData buf ! channel))\<rparr>)
                      [0..<numChannels] buffer)))"

subsection \<open>playPCM\<close>

text \<open>
  \<open>binaryString\<close> is what \<open>atob(base64)\<close> did: it threw, or it returned a string, given
  here by its character codes. \<open>bytes[i] = binaryString.charCodeAt(i)\<close> stores each code in
  a \<open>Uint8Array\<close>. The function is fixed to 24000 Hz and one channel. When decoding
  succeeds a buffer source is created, connected and started; an exception of these calls
  rejects the promise. Otherwise the returned promise stays pending until the browser fires
  \<open>ended\<close>.
\<close>

datatype play_result = PlayRejected js_error | PlayStarted AudioBuffer

definition playPCM :: "js_error + nat list \<Rightarrow> audio_ctx \<Rightarrow> play_result" where
  "playPCM binaryString ctx =
     (case binaryString of
        Inl e \<Rightarrow> PlayRejected e
      | Inr codes \<Rightarrow>
          (let bytes = map (\<lambda>c. (of_nat c :: 8 word)) codes
           in case decodeAudioData bytes ctx 24000 1 of
                Inl e \<Rightarrow> PlayRejected e
              | Inr audioBuffer \<Rightarrow>
                  (case start_throws ctx of
                     Some e \<Rightarrow> PlayRejected e
                   | None \<Rightarrow> PlayStarted audioBuffer)))"

section \<open>Speaking on demand (handleSpeak)\<close>

text \<open>
  \<open>handleSpeak\<close> is an async function with three suspension points: \<open>await resume()\<close>,
  \<open>await loadAudio(text)\<close> and \<open>await playPCM(...)\<close>. A request is either suspended at
  one of them or complete: returned, or left by an exception (its promise rejected).
  Like \<open>loadAudio\<close>, it works with the cache of the render whose closure it is.
\<close>

datatype speak_state =
    SpeakReturned
  | SpeakEscaped js_error
  | AwaitResume "string \<rightharpoonup> string" string nat
  | AwaitLoad nat load_result
  | AwaitPlay play_result

fun completed :: "speak_state \<Rightarrow> bool" where
  "completed SpeakReturned = True"
| "completed (SpeakEscaped e) = True"
| "completed (AwaitResume cache text' index) = False"
| "completed (AwaitLoad index r) = False"
| "completed (AwaitPlay pr) = False"

text \<open>
  What the world outside the program contributes to one request: what the constructor of
  the audio context does if it is called (it throws or yields a context), whether the
  context is suspended when the request looks at its state, whether \<open>resume()\<close> is
  rejected, what \<open>atob\<close> makes of the audio, and whether the browser fires \<open>ended\<close> for a
  started source.
\<close>

record speak_env =
  newContext :: "js_error + audio_ctx"
  contextSuspended :: bool
  resumeRejection :: "js_error option"
  binaryString :: "js_error + nat list"
  playbackEnded :: bool

text \<open>The \<open>finally\<close> block, after which the function returns.\<close>

definition handleSpeak_finally :: "component \<Rightarrow> speak_state \<times> component" where
  "handleSpeak_finally s = (SpeakReturned, s\<lparr>loadingAudioIndex := None, speakingIndex := None\<rparr>)"

text \<open>From \<open>setLoadingAudioIndex(index)\<close> into the \<open>try\<close> block, up to the await of \<open>loadAudio\<close>.\<close>

definition handleSpeak_try :: "(string \<rightharpoonup> string) \<Rightarrow> string \<Rightarrow> nat \<Rightarrow> component \<Rightarrow> speak_state \<times> component" where
  "handleSpeak_try cache text' index s =
     (let s1 = s\<lparr>loadingAudioIndex := Some index\<rparr>;
          (r, s2) = loadAudio cache text' s1
      in (AwaitLoad index r, s2))"

text \<open>
  The call itself, up to its first suspension point. The context is constructed only when
  the ref is null; an exception of the constructor is outside the \<open>try\<close> block and leaves
  the function.
\<close>

definition handleSpeak :: "speak_env \<Rightarrow> (string \<rightharpoonup> string) \<Rightarrow> string \<Rightarrow> nat \<Rightarrow> component \<Rightarrow> speak_state \<times> component" where
  "handleSpeak env cache text' index s =
     (if \<not> truthy text' then (SpeakReturned, s)
      else case (case audioContextRef s of None \<Rightarrow> newContext env | Some ctx \<Rightarrow> Inr ctx) of
             Inl e \<Rightarrow> (SpeakEscaped e, s)
           | Inr ctx \<Rightarrow>
               (let s1 = s\<lparr>audioContextRef := Some ctx\<rparr>
                in if contextSuspended env then (AwaitResume cache text' index, s1)
                   else handleSpeak_try cache text' index s1))"

text \<open>After \<open>await resume()\<close>: a rejection is outside the \<open>try\<close> block and leaves the function.\<close>

definition handleSpeak_resumed :: "js_error option \<Rightarrow> (string \<rightharpoonup> string) \<Rightarrow> string \<Rightarrow> nat \<Rightarrow> component \<Rightarrow> speak_state \<times> component" where
  "handleSpeak_resumed rejection cache text' index s =
     (case rejection of
        Some e \<Rightarrow> (SpeakEscaped e, s)
      | None \<Rightarrow> handleSpeak_try cache text' index s)"

text \<open>
  After \<open>await loadAudio(text)\<close> has given \<open>base64\<close>; \<open>binary\<close> is what \<open>atob\<close> makes of
  it. With a truthy value the spinner is
  stopped, the index is marked as speaking and \<open>playPCM\<close> is called with the context of the
  ref. (The ref is set on entry and never cleared; were it null, the call would be rejected
  with a type error.)
\<close>

definition handleSpeak_loaded :: "string option \<Rightarrow> js_error + nat list \<Rightarrow> nat \<Rightarrow> component \<Rightarrow> speak_state \<times> component" where
  "handleSpeak_loaded base64 binary index s =
     (case base64 of
        None \<Rightarrow> handleSpeak_finally s
      | Some b \<Rightarrow>
          if truthy b then
            (let s1 = s\<lparr>loadingAudioIndex := None, speakingIndex := Some index\<rparr>
             in case audioContextRef s1 of
                  None \<Rightarrow> (AwaitPlay (PlayRejected (OtherError ''TypeError'')), s1)
                | Some ctx \<Rightarrow> (AwaitPlay (playPCM binary ctx), s1))
          else handleSpeak_finally s)"

text \<open>After \<open>await playPCM(...)\<close>: a rejection is caught and logged; then the \<open>finally\<close> block.\<close>

definition handleSpeak_played :: "js_error option \<Rightarrow> component \<Rightarrow> speak_state \<times> component" where
  "handleSpeak_played rejection s =
     (case rejection of
        Some e \<Rightarrow> handleSpeak_finally (s\<lparr>consoleErrors := consoleErrors s @ [e]\<rparr>)
      | None \<Rightarrow> handleSpeak_finally s)"

text \<open>
  The event loop resumes a suspended request when what it waits for is there. A request
  waiting for a pending promise, or for a playback that has not ended, stays where it is.
\<close>

fun advance :: "speak_env \<Rightarrow> speak_state \<Rightarrow> component \<Rightarrow> speak_state \<times> component" where
  "advance env SpeakReturned s = (SpeakReturned, s)"
| "advance env (SpeakEscaped e) s = (SpeakEscaped e, s)"
| "advance env (AwaitResume cache text' index) s =
     handleSpeak_resumed (resumeRejection env) cache text' index s"
| "advance env (AwaitLoad index r) s =
     (case awaited r s of
        None \<Rightarrow> (AwaitLoad index r, s)
      | Some base64 \<Rightarrow> handleSpeak_loaded base64 (binaryString env) index s)"
| "advance env (AwaitPlay (PlayRejected e)) s = handleSpeak_played (Some e) s"
| "advance env (AwaitPlay (PlayStarted audioBuffer)) s =
     (if playbackEnded env then handleSpeak_played None s
      else (AwaitPlay (PlayStarted audioBuffer), s))"

text \<open>
  One request from the click to its completion. While the request is suspended, other
  callbacks run (other requests, fulfilled promises, effects): \<open>others\<close> lists what they do
  to the component before each resumption, and they may do anything. The run stops when the
  request is complete, so the component returned is the one the request leaves behind.
\<close>

fun drive :: "speak_env \<Rightarrow> (component \<Rightarrow> component) list \<Rightarrow> speak_state \<times> component \<Rightarrow> speak_state \<times> component" where
  "drive env [] (st, s) = (st, s)"
| "drive env (other # others) (st, s) =
     (if completed st then (st, s) else drive env others (advance env st (other s)))"

definition speakRequest :: "speak_env \<Rightarrow> (string \<rightharpoonup> string) \<Rightarrow> string \<Rightarrow> nat \<Rightarrow> (component \<Rightarrow> component) list \<Rightarrow> component \<Rightarrow> speak_state \<times> component" where
  "speakRequest env cache text' index others s =
     drive env others (handleSpeak env cache text' index s)"

section \<open>An example story\<close>

text \<open>
  A story with the same sentence twice, an empty sentence, and a word that is both a
  keyword and a teaching word.
\<close>

definition catStory :: StoryResponse where
  "catStory =
     \<lparr>title = ''A cat'',
      english = [''A cat sat.'', '''', ''A cat sat.''],
      chinese = [''mao zuo xia le.'', '''', ''mao zuo xia le.''],
      story_keywords = [\<lparr>k_cn = ''mao'', k_en = ''cat''\<rparr>],
      teaching_words = [\<lparr>t_en = ''sat'', t_note = ''Action word''\<rparr>,
                        \<lparr>t_en = ''cat'', t_note = ''Animal''\<rparr>],
      parent_tips = []\<rparr>"

text \<open>
  What the world does for one example request: the context is there and running, the audio
  decodes to three bytes, and no playback ever ends.
\<close>

definition exampleEnv :: speak_env where
  "exampleEnv =
     \<lparr>newContext = Inr standardContext, contextSuspended = False, resumeRejection = None,
      binaryString = Inr [0, 128, 255], playbackEnded = False\<rparr>"

section \<open>Notions used in the statements\<close>

text \<open>
  Every call on record from position \<open>n\<close> on is the one the promise map holds for its text.
\<close>

definition registeredSince :: "nat \<Rightarrow> component \<Rightarrow> bool" where
  "registeredSince n s =
     (\<forall>q. n \<le> q \<and> q < length (speechCalls s) \<longrightarrow>
          speechPromiseMap s (sent_text (speechCalls s ! q)) = Some q)"

text \<open>
  A component whose maps speak of the calls from position \<open>n\<close> on only: those calls are
  registered, no earlier call is still pending, and every cache entry is the value of the
  registered call for its text. A freshly mounted component is of this kind for \<open>n = 0\<close>,
  and so is a component after a story change during which no call was pending.
\<close>

definition coherentSince :: "nat \<Rightarrow> component \<Rightarrow> bool" where
  "coherentSince n s =
     (n \<le> length (speechCalls s) \<and> registeredSince n s
      \<and> (\<forall>q. q < n \<longrightarrow> promise (speechCalls s ! q) \<noteq> Pending)
      \<and> (\<forall>t b. audioCache s t = Some b \<longrightarrow>
             (\<exists>q. n \<le> q \<and> q < length (speechCalls s) \<and> speechPromiseMap s t = Some q
                  \<and> promise (speechCalls s ! q) = Fulfilled (Some b))))"

text \<open>
  The request gets its audio context: the ref holds one or the constructor yields one, and
  if the context is suspended, \<open>resume()\<close> is not rejected.
\<close>

definition contextReady :: "speak_env \<Rightarrow> component \<Rightarrow> bool" where
  "contextReady env s =
     (case (case audioContextRef s of None \<Rightarrow> newContext env | Some ctx \<Rightarrow> Inr ctx) of
        Inl e \<Rightarrow> False
      | Inr ctx \<Rightarrow> \<not> contextSuspended env \<or> resumeRejection env = None)"

text \<open>The suspension points inside the \<open>try\<close> block.\<close>

fun inTry :: "speak_state \<Rightarrow> bool" where
  "inTry (AwaitLoad index r) = True"
| "inTry (AwaitPlay pr) = True"
| "inTry SpeakReturned = False"
| "inTry (SpeakEscaped e) = False"
| "inTry (AwaitResume cache text' index) = False"

text \<open>A context whose \<open>createBuffer\<close> accepts every request, for comparison.\<close>

definition lenientContext :: audio_ctx where
  "lenientContext =
     \<lparr>createBuffer_throws = (\<lambda>numberOfChannels len rate. None), start_throws = None\<rparr>"

section \<open>Facts about loadAudio and the events\<close>

lemma loadAudio_cases:
  obtains (hit) v where "cacheHit cache t = Some v" "loadAudio cache t s = (Immediate v, s)"
  | (joined) p where "cacheHit cache t = None" "speechPromiseMap s t = Some p" "loadAudio cache t s = (Follow p, s)"
  | (fetch) "cacheHit cache t = None" "speechPromiseMap s t = None"
      "loadAudio cache t s = (Follow (length (speechCalls s)),
         s\<lparr>speechCalls := speechCalls s @ [\<lparr>sent_text = t, promise = Pending\<rparr>],
           speechPromiseMap := (speechPromiseMap s)(t \<mapsto> length (speechCalls s))\<rparr>)"
  by (cases "cacheHit cache t"; cases "speechPromiseMap s t") (auto simp: loadAudio_def Let_def)



lemma speechFulfilled_length:
  "length (speechCalls (speechFulfilled p v s)) = length (speechCalls s)"
  by (auto simp: speechFulfilled_def Let_def split: option.splits)





lemma run_Nil: "run [] s = s"
  by (simp add: run_def)

lemma run_Cons: "run (e # evs) s = run evs (step e s)"
  by (simp add: run_def)


lemma step_length_mono: "length (speechCalls s) \<le> length (speechCalls (step e s))"
proof (cases e)
  case (Call cache t)
  then show ?thesis by (cases rule: loadAudio_cases[of cache t s]) auto
next
  case (Fulfil p v)
  then show ?thesis by (simp add: speechFulfilled_length)
next
  case (StoryChange st)
  then show ?thesis by (simp add: storyReset_def)
qed

lemma run_length_mono: "length (speechCalls s) \<le> length (speechCalls (run evs s))"
proof (induction evs arbitrary: s)
  case Nil
  then show ?case by (simp add: run_Nil)
next
  case (Cons e evs)
  show ?case
    using step_length_mono[of s e] Cons[of "step e s"] by (simp add: run_Cons)
qed

















lemma coherent_mount: "coherentSince 0 (mount story)"
  by (simp add: coherentSince_def registeredSince_def mount_def)






section \<open>Single flight\<close>






section \<open>Story change\<close>



section \<open>The outcome of a fetch\<close>





section \<open>Facts about the prefetch loop\<close>

lemma firstOccurrences_Nil: "firstOccurrences [] = []"
  by (simp add: firstOccurrences_def)

lemma remdups_snoc: "remdups (xs @ [x]) = filter (\<lambda>y. y \<noteq> x) (remdups xs) @ [x]"
  by (induction xs) auto

lemma firstOccurrences_Cons:
  "firstOccurrences (x # xs) = x # firstOccurrences (filter (\<lambda>y. y \<noteq> x) xs)"
  by (simp add: firstOccurrences_def remdups_snoc rev_filter remdups_filter)

lemma set_firstOccurrences: "set (firstOccurrences xs) = set xs"
  by (simp add: firstOccurrences_def)



lemma prefetchLoop_calls:
  "speechCalls (prefetchLoop cache texts s) =
     speechCalls s @
       map (\<lambda>t. \<lparr>sent_text = t, promise = Pending\<rparr>)
         (firstOccurrences
            (filter (\<lambda>t. truthy t \<and> cacheHit cache t = None \<and> speechPromiseMap s t = None) texts))"
proof (induction texts arbitrary: s)
  case Nil
  then show ?case by (simp add: firstOccurrences_Nil)
next
  case (Cons t texts)
  show ?case
  proof (cases "truthy t")
    case False
    then show ?thesis using Cons[of s] by simp
  next
    case True
    show ?thesis
    proof (cases rule: loadAudio_cases[of cache t s])
      case (hit v)
      then show ?thesis using True Cons[of s] by simp
    next
      case (joined p)
      then show ?thesis using True Cons[of s] by simp
    next
      case fetch
      let ?s1 = "s\<lparr>speechCalls := speechCalls s @ [\<lparr>sent_text = t, promise = Pending\<rparr>],
                   speechPromiseMap := (speechPromiseMap s)(t \<mapsto> length (speechCalls s))\<rparr>"
      let ?P = "\<lambda>u. truthy u \<and> cacheHit cache u = None \<and> speechPromiseMap s u = None"
      have f: "filter (\<lambda>u. truthy u \<and> cacheHit cache u = None \<and> speechPromiseMap ?s1 u = None) texts
               = filter (\<lambda>y. y \<noteq> t) (filter ?P texts)"
        by (auto intro: filter_cong)
      have "speechCalls (prefetchLoop cache texts ?s1) =
              speechCalls ?s1 @
                map (\<lambda>t. \<lparr>sent_text = t, promise = Pending\<rparr>)
                  (firstOccurrences (filter (\<lambda>y. y \<noteq> t) (filter ?P texts)))"
        unfolding f[symmetric] by (rule Cons)
      moreover have "prefetchLoop cache (t # texts) s = prefetchLoop cache texts ?s1"
        using True fetch by simp
      moreover have "firstOccurrences (filter ?P (t # texts))
                       = t # firstOccurrences (filter (\<lambda>y. y \<noteq> t) (filter ?P texts))"
        using True fetch by (simp add: firstOccurrences_Cons)
      ultimately show ?thesis by simp
    qed
  qed
qed



lemma prefetchLoop_no_empty_text:
  "[] \<notin> set (fetchedSince (length (speechCalls s)) (prefetchLoop cache texts s))"
  by (auto simp: fetchedSince_def prefetchLoop_calls set_firstOccurrences truthy_def)



section \<open>The empty text\<close>

lemma drive_completed: "completed st \<Longrightarrow> drive env others (st, s) = (st, s)"
  by (cases others) simp_all

text \<open>
  Claim C2, as far as it holds. The guard against the empty text is at the two call sites
  of \<open>loadAudio\<close>: a speak request for the empty text returns at once and leaves the
  component as it is (no cache lookup, no fetch), and neither the prefetch effect nor a
  story change ever sends the empty text to the speech service.
\<close>

theorem empty_text_stopped_by_callers:
  "speakRequest env cache [] index others s = (SpeakReturned, s)
   \<and> [] \<notin> set (fetchedSince (length (speechCalls s)) (prefetchEffect cache s))
   \<and> [] \<notin> set (fetchedSince (length (speechCalls s)) (storyChanged story s))"
proof (intro conjI)
  show "speakRequest env cache [] index others s = (SpeakReturned, s)"
    by (simp add: speakRequest_def handleSpeak_def truthy_def drive_completed)
  show "[] \<notin> set (fetchedSince (length (speechCalls s)) (prefetchEffect cache s))"
    using prefetchLoop_no_empty_text[of s cache]
    by (simp add: prefetchEffect_def prefetchAll_def fetchedSince_def)
  have "length (speechCalls (storyReset story s)) = length (speechCalls s)"
    by (simp add: storyReset_def)
  then show "[] \<notin> set (fetchedSince (length (speechCalls s)) (storyChanged story s))"
    using prefetchLoop_no_empty_text[of "storyReset story s" Map.empty "textsToPreload story"]
    by (simp add: storyChanged_def prefetchEffect_def prefetchAll_def storyReset_def)
qed

text \<open>
  A request for the empty text while another item is marked as speaking: nothing changes.
  And the empty sentence of the example story is not among the texts its prefetch sends.
\<close>

theorem empty_text_example:
  "speakRequest exampleEnv Map.empty '''' 3 [] ((mount catStory)\<lparr>speakingIndex := Some 1\<rparr>)
     = (SpeakReturned, (mount catStory)\<lparr>speakingIndex := Some 1\<rparr>)
   \<and> fetched (storyChanged catStory (mount catStory)) = [''A cat sat.'', ''cat'', ''sat'']"
  using empty_text_stopped_by_callers[of exampleEnv Map.empty 3 "[]"
      "(mount catStory)\<lparr>speakingIndex := Some 1\<rparr>" catStory]
  by (simp add: loadAudio_def cacheHit_def mount_def Let_def truthy_def
      fetched_def storyReset_def storyChanged_def prefetchEffect_def prefetchAll_def textsToPreload_def
      catStory_def)

text \<open>
  \<open>loadAudio\<close> itself has no check for the empty text. Called with it on a fresh component
  it looks into the cache and the promise map and then calls \<open>generateSpeech\<close> with the
  empty text; what it returns is the pending promise of that call, not null.
\<close>

theorem loadAudio_empty_text_fetches:
  "loadAudio (audioCache (mount catStory)) '''' (mount catStory) =
     (Follow 0, (mount catStory)\<lparr>speechCalls := [\<lparr>sent_text = '''', promise = Pending\<rparr>],
                                 speechPromiseMap := ['''' \<mapsto> 0]\<rparr>)
   \<and> fetched (snd (loadAudio (audioCache (mount catStory)) '''' (mount catStory))) = ['''']"
  by (simp add: loadAudio_def cacheHit_def mount_def Let_def truthy_def fetched_def)

section \<open>Facts about the decoder\<close>






















section \<open>Playing nothing\<close>

text \<open>
  Claim C6, as far as it holds. For audio that decodes to no bytes, \<open>playPCM\<close> asks the
  context for a buffer of length 0. If the context throws, there or when the source is
  started, the call is rejected with that error; otherwise a source without frames is
  started and the call waits for \<open>ended\<close>.
  In \<open>handleSpeak\<close> an empty \<open>base64\<close> string never reaches \<open>playPCM\<close>, and a rejection
  of \<open>playPCM\<close> is caught there, logged, and followed by the cleanup.
\<close>

theorem playPCM_zero_length:
  "playPCM (Inr []) ctx =
     (case createBuffer_throws ctx 1 0 24000 of
        Some e \<Rightarrow> PlayRejected e
      | None \<Rightarrow>
          (case start_throws ctx of
             Some e \<Rightarrow> PlayRejected e
           | None \<Rightarrow> PlayStarted \<lparr>channelData = [[]], sampleRate = 24000\<rparr>))
   \<and> handleSpeak_loaded (Some []) binary index s = handleSpeak_finally s
   \<and> advance env (AwaitPlay (PlayRejected e)) s =
       (SpeakReturned,
        s\<lparr>consoleErrors := consoleErrors s @ [e], loadingAudioIndex := None, speakingIndex := None\<rparr>)"
  by (simp add: playPCM_def decodeAudioData_def Int16Array_of_def createBuffer_def frameLength_def
      fillChannel_def frameIterations_def store_def handleSpeak_loaded_def truthy_def handleSpeak_played_def
      handleSpeak_finally_def split: option.splits)

text \<open>With a context that accepts a length of zero the source is started.\<close>

theorem playPCM_zero_length_lenient:
  "playPCM (Inr []) lenientContext = PlayStarted \<lparr>channelData = [[]], sampleRate = 24000\<rparr>"
  using playPCM_zero_length[of lenientContext]
  by (simp add: lenientContext_def)

text \<open>
  Claim C6 says the call resolves. With a context that follows the Web Audio API it is
  rejected: \<open>createBuffer\<close> throws for a length of zero.
\<close>

theorem playPCM_zero_length_rejected:
  "playPCM (Inr []) standardContext = PlayRejected NotSupportedError"
  by (simp add: playPCM_def decodeAudioData_def Int16Array_of_def createBuffer_def
      standardContext_def frameLength_def)

section \<open>Facts about a speak request\<close>

lemma handleSpeak_finally_clean:
  "handleSpeak_finally s = (st', s') \<Longrightarrow>
     st' = SpeakReturned \<and> speakingIndex s' = None \<and> loadingAudioIndex s' = None"
  by (auto simp: handleSpeak_finally_def)

lemma handleSpeak_try_inTry: "inTry (fst (handleSpeak_try cache t index s))"
  by (simp add: handleSpeak_try_def Let_def split: prod.splits)

lemma advance_inTry:
  assumes "inTry st" "advance env st s = (st', s')"
  shows "inTry st' \<or> (st' = SpeakReturned \<and> speakingIndex s' = None \<and> loadingAudioIndex s' = None)"
proof (cases st)
  case (AwaitLoad index r)
  then show ?thesis
    using assms(2)
    by (auto simp: handleSpeak_loaded_def Let_def handleSpeak_finally_def
        split: option.splits if_splits)
next
  case (AwaitPlay pr)
  then show ?thesis
    using assms(2)
    by (cases pr) (auto simp: handleSpeak_played_def handleSpeak_finally_def split: if_splits)
qed (use assms(1) in auto)

lemma inTry_not_completed: "inTry st \<Longrightarrow> \<not> completed st"
  by (cases st) auto

lemma drive_inTry:
  "inTry st \<Longrightarrow> drive env others (st, s) = (st', s') \<Longrightarrow> completed st' \<Longrightarrow>
     st' = SpeakReturned \<and> speakingIndex s' = None \<and> loadingAudioIndex s' = None"
proof (induction others arbitrary: st s)
  case Nil
  then show ?case using inTry_not_completed by auto
next
  case (Cons other others)
  obtain st1 s1 where a: "advance env st (other s) = (st1, s1)"
    by (cases "advance env st (other s)") auto
  have d: "drive env others (st1, s1) = (st', s')"
    using Cons.prems(1,2) a inTry_not_completed by simp
  from advance_inTry[OF Cons.prems(1) a] show ?case
  proof
    assume "inTry st1"
    then show ?thesis using d Cons.prems(3) by (rule Cons.IH)
  next
    assume c: "st1 = SpeakReturned \<and> speakingIndex s1 = None \<and> loadingAudioIndex s1 = None"
    then have "drive env others (st1, s1) = (st1, s1)"
      by (simp add: drive_completed)
    with d c show ?thesis by simp
  qed
qed

lemma handleSpeak_entry:
  assumes "truthy t" "contextReady env s"
  shows "inTry (fst (handleSpeak env cache t index s))
         \<or> (resumeRejection env = None
            \<and> fst (handleSpeak env cache t index s) = AwaitResume cache t index)"
  using assms
  by (auto simp: handleSpeak_def contextReady_def Let_def handleSpeak_try_inTry
      split: option.splits sum.splits)

text \<open>
  Claim C9, as far as it holds. Take a speak request for a non-empty text that gets its
  audio context, and let anything at all happen to the component while the request is
  suspended. If the request
  completes, it has returned normally and both \<open>speakingIndex\<close> and \<open>loadingAudioIndex\<close>
  are null in the component it leaves behind. A fetch that gives null leads straight to
  the cleanup; a rejection of \<open>playPCM\<close> (a decoding or playback error) is logged and
  followed by the cleanup; and once the awaited audio is there and the browser reports the
  end of a started playback, the request does complete.
\<close>

theorem handleSpeak_always_cleans_up:
  "(truthy text' \<and> contextReady env s \<and> speakRequest env cache text' index others s = (st, s')
      \<and> completed st
      \<longrightarrow> st = SpeakReturned \<and> speakingIndex s' = None \<and> loadingAudioIndex s' = None)
   \<and> (awaited r s1 = Some None \<longrightarrow>
        advance env (AwaitLoad index r) s1 =
          (SpeakReturned, s1\<lparr>loadingAudioIndex := None, speakingIndex := None\<rparr>))
   \<and> advance env (AwaitPlay (PlayRejected e)) s1 =
       (SpeakReturned,
        s1\<lparr>consoleErrors := consoleErrors s1 @ [e], loadingAudioIndex := None, speakingIndex := None\<rparr>)
   \<and> (awaited r s1 \<noteq> None \<and> playbackEnded env \<longrightarrow>
        completed (fst (drive env [\<lambda>x. x, other] (AwaitLoad index r, s1))))"
proof -
  have p1: "truthy text' \<and> contextReady env s \<and> speakRequest env cache text' index others s = (st, s')
      \<and> completed st
      \<longrightarrow> st = SpeakReturned \<and> speakingIndex s' = None \<and> loadingAudioIndex s' = None"
  proof
    assume a: "truthy text' \<and> contextReady env s
       \<and> speakRequest env cache text' index others s = (st, s') \<and> completed st"
    obtain st0 s0 where h: "handleSpeak env cache text' index s = (st0, s0)"
      by (cases "handleSpeak env cache text' index s") auto
    have d: "drive env others (st0, s0) = (st, s')"
      using a h by (simp add: speakRequest_def)
    from handleSpeak_entry[of text' env s cache index] a h
    have "inTry st0 \<or> (resumeRejection env = None \<and> st0 = AwaitResume cache text' index)"
      by simp
    then show "st = SpeakReturned \<and> speakingIndex s' = None \<and> loadingAudioIndex s' = None"
    proof
      assume "inTry st0"
      then show ?thesis using d a by (intro drive_inTry[of st0 env others s0 st s']) auto
    next
      assume r: "resumeRejection env = None \<and> st0 = AwaitResume cache text' index"
      show ?thesis
      proof (cases others)
        case Nil
        then show ?thesis using d r a by auto
      next
        case (Cons other rest)
        obtain st1 s1 where t: "handleSpeak_try cache text' index (other s0) = (st1, s1)"
          by (cases "handleSpeak_try cache text' index (other s0)") auto
        then have "inTry st1"
          using handleSpeak_try_inTry[of cache text' index "other s0"] by simp
        moreover have "drive env rest (st1, s1) = (st, s')"
          using d r Cons t by (simp add: handleSpeak_resumed_def)
        ultimately show ?thesis using a by (intro drive_inTry[of st1 env rest s1 st s']) auto
      qed
    qed
  qed
  have p2: "awaited r s1 = Some None \<longrightarrow>
        advance env (AwaitLoad index r) s1 =
          (SpeakReturned, s1\<lparr>loadingAudioIndex := None, speakingIndex := None\<rparr>)"
    by (simp add: handleSpeak_loaded_def handleSpeak_finally_def)
  have p3: "advance env (AwaitPlay (PlayRejected e)) s1 =
       (SpeakReturned,
        s1\<lparr>consoleErrors := consoleErrors s1 @ [e], loadingAudioIndex := None, speakingIndex := None\<rparr>)"
    by (simp add: handleSpeak_played_def handleSpeak_finally_def)
  have p4: "awaited r s1 \<noteq> None \<and> playbackEnded env \<longrightarrow>
        completed (fst (drive env [\<lambda>x. x, other] (AwaitLoad index r, s1)))"
  proof
    assume a: "awaited r s1 \<noteq> None \<and> playbackEnded env"
    then obtain base64 where b: "awaited r s1 = Some base64" by auto
    obtain st2 s2 where l: "handleSpeak_loaded base64 (binaryString env) index s1 = (st2, s2)"
      by (cases "handleSpeak_loaded base64 (binaryString env) index s1") auto
    have "completed st2 \<or> (\<exists>pr. st2 = AwaitPlay pr)"
      using l by (auto simp: handleSpeak_loaded_def handleSpeak_finally_def Let_def
          split: option.splits if_splits)
    then show "completed (fst (drive env [\<lambda>x. x, other] (AwaitLoad index r, s1)))"
    proof
      assume "completed st2"
      then show ?thesis using b l by simp
    next
      assume "\<exists>pr. st2 = AwaitPlay pr"
      then obtain pr where "st2 = AwaitPlay pr" by blast
      then show ?thesis
        using b l a
        by (cases pr) (simp_all add: handleSpeak_played_def handleSpeak_finally_def)
    qed
  qed
  show ?thesis
    by (intro conjI) (rule p1, rule p2, rule p3, rule p4)
qed

text \<open>
  A request for the first sentence on a fresh component. The fetch succeeds, the audio has
  an odd number of bytes and cannot be decoded, and meanwhile another request has marked
  itself as speaking. The request returns, the error is logged, both indicators are null.
\<close>

theorem handleSpeak_decode_failure_example:
  "truthy ''A cat sat.'' \<and> contextReady exampleEnv (mount catStory)
   \<and> fst (speakRequest exampleEnv Map.empty ''A cat sat.'' 0
            [speechFulfilled 0 (Some ''AID/''), \<lambda>s. s\<lparr>speakingIndex := Some 7\<rparr>] (mount catStory))
       = SpeakReturned
   \<and> speakingIndex (snd (speakRequest exampleEnv Map.empty ''A cat sat.'' 0
            [speechFulfilled 0 (Some ''AID/''), \<lambda>s. s\<lparr>speakingIndex := Some 7\<rparr>] (mount catStory)))
       = None
   \<and> loadingAudioIndex (snd (speakRequest exampleEnv Map.empty ''A cat sat.'' 0
            [speechFulfilled 0 (Some ''AID/''), \<lambda>s. s\<lparr>speakingIndex := Some 7\<rparr>] (mount catStory)))
       = None
   \<and> consoleErrors (snd (speakRequest exampleEnv Map.empty ''A cat sat.'' 0
            [speechFulfilled 0 (Some ''AID/''), \<lambda>s. s\<lparr>speakingIndex := Some 7\<rparr>] (mount catStory)))
       = [RangeError]"
proof -
  let ?run = "speakRequest exampleEnv Map.empty ''A cat sat.'' 0
            [speechFulfilled 0 (Some ''AID/''), \<lambda>s. s\<lparr>speakingIndex := Some 7\<rparr>] (mount catStory)"
  have t: "truthy ''A cat sat.''" by (simp add: truthy_def)
  have c: "contextReady exampleEnv (mount catStory)"
    by (simp add: contextReady_def exampleEnv_def mount_def standardContext_def)
  have r: "fst ?run = SpeakReturned \<and> consoleErrors (snd ?run) = [RangeError]"
    by (simp add: speakRequest_def handleSpeak_def handleSpeak_try_def handleSpeak_loaded_def
        handleSpeak_played_def handleSpeak_finally_def exampleEnv_def loadAudio_def cacheHit_def
        mount_def Let_def truthy_def speechFulfilled_def awaited_def playPCM_def
        decodeAudioData_def Int16Array_of_def)
  then have "completed (fst ?run)" by simp
  with t c have "fst ?run = SpeakReturned \<and> speakingIndex (snd ?run) = None \<and> loadingAudioIndex (snd ?run) = None"
    using handleSpeak_always_cleans_up[of "''A cat sat.''" exampleEnv "mount catStory" Map.empty 0
        "[speechFulfilled 0 (Some ''AID/''), \<lambda>s. s\<lparr>speakingIndex := Some 7\<rparr>]" "fst ?run" "snd ?run"]
    by simp
  with t c r show ?thesis by simp
qed

text \<open>
  Claim C9 says that no error of a speak request leaves the call site. The audio context
  is constructed, and resumed when it is suspended, before the \<open>try\<close> block. When the
  constructor throws, or when \<open>resume()\<close> is rejected, the exception leaves
  \<open>handleSpeak\<close>: nothing is logged and the cleanup is not run (no indicator has been set
  by then).
\<close>

theorem context_failure_escapes:
  "speakRequest
     \<lparr>newContext = Inl NotSupportedError, contextSuspended = False, resumeRejection = None,
      binaryString = Inr [0, 128], playbackEnded = True\<rparr>
     Map.empty ''A cat sat.'' 0 [\<lambda>s. s] (mount catStory)
     = (SpeakEscaped NotSupportedError, mount catStory)
   \<and> consoleErrors (mount catStory) = []
   \<and> speakRequest
       \<lparr>newContext = Inr standardContext, contextSuspended = True,
        resumeRejection = Some (OtherError ''InvalidStateError''),
        binaryString = Inr [0, 128], playbackEnded = True\<rparr>
       Map.empty ''A cat sat.'' 0 [\<lambda>s. s] (mount catStory)
     = (SpeakEscaped (OtherError ''InvalidStateError''),
        (mount catStory)\<lparr>audioContextRef := Some standardContext\<rparr>)"
  by (simp add: speakRequest_def handleSpeak_def handleSpeak_resumed_def truthy_def mount_def)

end
